theory Spec2Isabelle
  imports Complex_Main "HOL-Library.Log_Nat"
begin

section \<open>Weather Forecast Tool: validators, clients, merger and icon selector\<close>

text \<open>
  A shallow embedding of \<^verbatim>\<open>src/project_code.py\<close>. Python values that reach the
  functions below (decoded JSON and the forecast dictionaries built from it) are values of
  \<open>pyval\<close>. An \<^verbatim>\<open>int\<close> is an unbounded integer. A \<^verbatim>\<open>float\<close> is an IEEE 754 double: a
  finite value is the rational it stands for, next to the two infinities and NaN (which the
  JSON decoder accepts); the two zeros, which Python compares equal, are one value. A
  dictionary is an association list read with \<open>map_of\<close>. An exception that leaves a
  function is the \<open>Inl\<close> side of its result.
\<close>

subsection \<open>Python values\<close>

datatype pyfloat = Finite rat | PosInf | NegInf | NaN

datatype pyval =
    PNone
  | PBool bool
  | PInt int
  | PFloat pyfloat
  | PStr string
  | PList "pyval list"
  | PDict "(string \<times> pyval) list"

type_synonym pydict = "(string \<times> pyval) list"

datatype py_error =
    TypeError
  | KeyError
  | IndexError
  | AttributeError
  | OverflowError
  | RequestException

text \<open>Sequencing of computations that may raise.\<close>

definition and_then :: "py_error + 'a \<Rightarrow> ('a \<Rightarrow> py_error + 'b) \<Rightarrow> py_error + 'b" where
  "and_then r f = (case r of Inl e \<Rightarrow> Inl e | Inr v \<Rightarrow> f v)"

text \<open>Truth value of a Python object, as \<^verbatim>\<open>if x:\<close> and \<^verbatim>\<open>x or y\<close> read it.\<close>

fun truthy :: "pyval \<Rightarrow> bool" where
  "truthy PNone = False"
| "truthy (PBool b) = b"
| "truthy (PInt i) = (i \<noteq> 0)"
| "truthy (PFloat x) = (x \<noteq> Finite 0)"
| "truthy (PStr s) = (s \<noteq> [])"
| "truthy (PList xs) = (xs \<noteq> [])"
| "truthy (PDict d) = (d \<noteq> [])"

text \<open>\<^verbatim>\<open>d.get(k, default)\<close> on a dictionary.\<close>

definition dict_get :: "pydict \<Rightarrow> string \<Rightarrow> pyval \<Rightarrow> pyval" where
  "dict_get d k dflt = (case map_of d k of None \<Rightarrow> dflt | Some v \<Rightarrow> v)"

text \<open>\<^verbatim>\<open>x.get(k, default)\<close> on any value: only a dictionary has the method.\<close>

fun py_get :: "pyval \<Rightarrow> string \<Rightarrow> pyval \<Rightarrow> py_error + pyval" where
  "py_get (PDict d) k dflt = Inr (dict_get d k dflt)"
| "py_get _ k dflt = Inl AttributeError"

text \<open>\<^verbatim>\<open>x[k]\<close> with a string key \<open>k\<close>.\<close>

fun subscript_key :: "pyval \<Rightarrow> string \<Rightarrow> py_error + pyval" where
  "subscript_key (PDict d) k = (case map_of d k of None \<Rightarrow> Inl KeyError | Some v \<Rightarrow> Inr v)"
| "subscript_key _ k = Inl TypeError"

text \<open>
  \<^verbatim>\<open>x[0]\<close>. The keys of a decoded JSON object are strings, so \<open>0\<close> is never one of them.
\<close>

fun subscript0 :: "pyval \<Rightarrow> py_error + pyval" where
  "subscript0 (PList []) = Inl IndexError"
| "subscript0 (PList (x # xs)) = Inr x"
| "subscript0 (PStr []) = Inl IndexError"
| "subscript0 (PStr (c # cs)) = Inr (PStr [c])"
| "subscript0 (PDict d) = Inl KeyError"
| "subscript0 _ = Inl TypeError"

text \<open>
  \<^verbatim>\<open>k in x\<close> for a string \<open>k\<close>: a key of a dictionary, an element of a list, a substring
  of a string; other values are not containers.
\<close>

fun is_substring :: "string \<Rightarrow> string \<Rightarrow> bool" where
  "is_substring k [] = (k = [])"
| "is_substring k (c # cs) = (take (length k) (c # cs) = k \<or> is_substring k cs)"

fun py_in :: "string \<Rightarrow> pyval \<Rightarrow> py_error + bool" where
  "py_in k (PDict d) = Inr (map_of d k \<noteq> None)"
| "py_in k (PList xs) = Inr (PStr k \<in> set xs)"
| "py_in k (PStr s) = Inr (is_substring k s)"
| "py_in k _ = Inl TypeError"

subsection \<open>Floating point\<close>

text \<open>
  Rounding to the nearest double, ties to the even significand. For \<open>q > 0\<close>,
  \<open>floor_log2 q\<close> is the exponent \<open>e\<close> with \<open>2 powi e \<le> q < 2 powi (e + 1)\<close>. A double
  has 53 significant bits and no exponent below \<open>-1022\<close>, so around \<open>q\<close> the doubles are
  the multiples of \<open>2 powi (e - 52)\<close>, and of \<open>2 powi (-1074)\<close> in the subnormal range.
  \<open>nearest_double\<close> rounds as if the exponent had no upper limit; a result of magnitude
  \<open>2 ^ 1024\<close> or more is an overflow.
\<close>

definition floor_log2 :: "rat \<Rightarrow> int" where
  "floor_log2 q =
     (let (p, d) = quotient_of q; e = bitlen p - bitlen d
      in if 2 powi e \<le> q then e else e - 1)"

definition round_half_even :: "rat \<Rightarrow> int" where
  "round_half_even x =
     (let f = \<lfloor>x\<rfloor>; r = x - of_int f
      in if r < 1 / 2 then f else if 1 / 2 < r then f + 1 else if even f then f else f + 1)"

definition nearest_double :: "rat \<Rightarrow> rat" where
  "nearest_double q =
     (if q = 0 then 0
      else let e = max (floor_log2 \<bar>q\<bar>) (- 1022); ulp = 2 powi (e - 52)
           in sgn q * of_int (round_half_even (\<bar>q\<bar> / ulp)) * ulp)"

definition double_limit :: rat where
  "double_limit = 2 ^ 1024"

text \<open>The result of a float operation whose exact value is \<open>q\<close>: overflow gives an infinity.\<close>

definition round_to_float :: "rat \<Rightarrow> pyfloat" where
  "round_to_float q =
     (let r = nearest_double q
      in if double_limit \<le> r then PosInf
         else if r \<le> - double_limit then NegInf
         else Finite r)"

text \<open>
  The float of an exact value where Python raises on overflow: the conversion of an
  \<^verbatim>\<open>int\<close> to \<^verbatim>\<open>float\<close>, and the true division of two \<^verbatim>\<open>int\<close>s.
\<close>

definition round_or_raise :: "rat \<Rightarrow> py_error + pyfloat" where
  "round_or_raise q =
     (let r = nearest_double q
      in if double_limit \<le> \<bar>r\<bar> then Inl OverflowError else Inr (Finite r))"

text \<open>\<^verbatim>\<open>x + y\<close> on two floats.\<close>

fun fl_add :: "pyfloat \<Rightarrow> pyfloat \<Rightarrow> pyfloat" where
  "fl_add (Finite a) (Finite b) = round_to_float (a + b)"
| "fl_add NaN y = NaN"
| "fl_add x NaN = NaN"
| "fl_add PosInf NegInf = NaN"
| "fl_add NegInf PosInf = NaN"
| "fl_add PosInf y = PosInf"
| "fl_add x PosInf = PosInf"
| "fl_add NegInf y = NegInf"
| "fl_add x NegInf = NegInf"

text \<open>\<^verbatim>\<open>x / 2\<close> on a float.\<close>

fun fl_div2 :: "pyfloat \<Rightarrow> pyfloat" where
  "fl_div2 (Finite a) = round_to_float (a / 2)"
| "fl_div2 x = x"

text \<open>\<^verbatim>\<open>x < y\<close> and \<^verbatim>\<open>x <= y\<close>: every comparison with NaN is false.\<close>

fun fl_less :: "pyfloat \<Rightarrow> pyfloat \<Rightarrow> bool" where
  "fl_less (Finite a) (Finite b) = (a < b)"
| "fl_less NaN y = False"
| "fl_less x NaN = False"
| "fl_less x NegInf = False"
| "fl_less NegInf y = True"
| "fl_less PosInf y = False"
| "fl_less x PosInf = True"

fun fl_le :: "pyfloat \<Rightarrow> pyfloat \<Rightarrow> bool" where
  "fl_le (Finite a) (Finite b) = (a \<le> b)"
| "fl_le NaN y = False"
| "fl_le x NaN = False"
| "fl_le NegInf y = True"
| "fl_le x NegInf = False"
| "fl_le x PosInf = True"
| "fl_le PosInf y = False"

subsection \<open>Numbers\<close>

text \<open>
  The numbers of Python: \<^verbatim>\<open>int\<close> (with \<^verbatim>\<open>bool\<close>, its subtype) and \<^verbatim>\<open>float\<close>.
  Comparisons between the two kinds are exact, so they read the value of an \<^verbatim>\<open>int\<close>
  without rounding it.
\<close>

datatype number = IntNum int | FloatNum pyfloat

fun as_number :: "pyval \<Rightarrow> number option" where
  "as_number (PInt i) = Some (IntNum i)"
| "as_number (PBool b) = Some (IntNum (if b then 1 else 0))"
| "as_number (PFloat x) = Some (FloatNum x)"
| "as_number _ = None"

fun value_of :: "number \<Rightarrow> pyfloat" where
  "value_of (IntNum i) = Finite (of_int i)"
| "value_of (FloatNum x) = x"

text \<open>\<^verbatim>\<open>a + b\<close> on numbers: exact on two \<^verbatim>\<open>int\<close>s; otherwise the \<^verbatim>\<open>int\<close> is converted.\<close>

fun num_add :: "number \<Rightarrow> number \<Rightarrow> py_error + pyval" where
  "num_add (IntNum a) (IntNum b) = Inr (PInt (a + b))"
| "num_add (FloatNum x) (FloatNum y) = Inr (PFloat (fl_add x y))"
| "num_add (IntNum a) (FloatNum y) =
     and_then (round_or_raise (of_int a)) (\<lambda>x. Inr (PFloat (fl_add x y)))"
| "num_add (FloatNum x) (IntNum b) =
     and_then (round_or_raise (of_int b)) (\<lambda>y. Inr (PFloat (fl_add x y)))"

text \<open>\<^verbatim>\<open>v1 + v2\<close>: numbers add, two strings or two lists concatenate.\<close>

definition py_add :: "pyval \<Rightarrow> pyval \<Rightarrow> py_error + pyval" where
  "py_add v1 v2 =
     (case (as_number v1, as_number v2) of
        (Some m, Some n) \<Rightarrow> num_add m n
      | _ \<Rightarrow>
          (case (v1, v2) of
             (PStr s, PStr t) \<Rightarrow> Inr (PStr (s @ t))
           | (PList xs, PList ys) \<Rightarrow> Inr (PList (xs @ ys))
           | _ \<Rightarrow> Inl TypeError))"

text \<open>\<^verbatim>\<open>v / 2\<close>: true division, whose result is always a float.\<close>

definition py_div2 :: "pyval \<Rightarrow> py_error + pyval" where
  "py_div2 v =
     (case as_number v of
        Some (IntNum a) \<Rightarrow> and_then (round_or_raise (of_int a / 2)) (\<lambda>x. Inr (PFloat x))
      | Some (FloatNum x) \<Rightarrow> Inr (PFloat (fl_div2 x))
      | None \<Rightarrow> Inl TypeError)"

subsection \<open>Calendar dates\<close>

record date =
  year :: nat
  month :: nat
  day :: nat

definition is_leap :: "nat \<Rightarrow> bool" where
  "is_leap y = (y mod 4 = 0 \<and> (y mod 100 \<noteq> 0 \<or> y mod 400 = 0))"

definition days_in_month :: "nat \<Rightarrow> nat \<Rightarrow> nat" where
  "days_in_month y m =
     (if m = 2 then (if is_leap y then 29 else 28)
      else if m = 4 \<or> m = 6 \<or> m = 9 \<or> m = 11 then 30
      else 31)"

text \<open>
  \<^verbatim>\<open>datetime.date(y, m, d)\<close>: \<open>None\<close> stands for the \<^verbatim>\<open>ValueError\<close> it raises outside
  years 1 to 9999, months 1 to 12 and the days of the month.
\<close>

definition make_date :: "nat \<Rightarrow> nat \<Rightarrow> nat \<Rightarrow> date option" where
  "make_date y m d =
     (if 1 \<le> y \<and> y \<le> 9999 \<and> 1 \<le> m \<and> m \<le> 12 \<and> 1 \<le> d \<and> d \<le> days_in_month y m
      then Some \<lparr>year = y, month = m, day = d\<rparr>
      else None)"

definition valid_date :: "date \<Rightarrow> bool" where
  "valid_date t = (make_date (year t) (month t) (day t) = Some t)"

text \<open>\<^verbatim>\<open>t.replace(year=y)\<close>.\<close>

definition replace_year :: "date \<Rightarrow> nat \<Rightarrow> date option" where
  "replace_year t y = make_date y (month t) (day t)"

text \<open>Dates compare as the triples (year, month, day).\<close>

definition date_less :: "date \<Rightarrow> date \<Rightarrow> bool" where
  "date_less a b =
     (year a < year b \<or>
      (year a = year b \<and> (month a < month b \<or> (month a = month b \<and> day a < day b))))"

subsection \<open>Parsing the format \<^verbatim>\<open>%Y-%m-%d\<close>\<close>

text \<open>
  The text is a string of 8-bit characters, among which the decimal digits are \<open>0\<close> to
  \<open>9\<close>. \<^verbatim>\<open>datetime.strptime\<close> turns the format into the regular expression
  \<^verbatim>\<open>(\d\d\d\d)-(1[0-2]|0[1-9]|[1-9])-(3[0-1]|[1-2]\d|0[1-9]|[1-9]| [1-9])\<close>,
  matches it at the start of the text, refuses text left over after the match, converts
  the three groups with \<^verbatim>\<open>int\<close> and builds the date.
  A character class is the string of its characters, an alternative is a list of classes,
  a group is the list of its alternatives in order. Matching returns every way to match,
  in the order a backtracking matcher tries them, so the first one is the match found.
\<close>

definition digits :: string where
  "digits = ''0123456789''"

definition nonzero_digits :: string where
  "nonzero_digits = ''123456789''"

fun match_alt :: "string list \<Rightarrow> string \<Rightarrow> (string \<times> string) option" where
  "match_alt [] s = Some ([], s)"
| "match_alt (cls # rest) [] = None"
| "match_alt (cls # rest) (c # cs) =
     (if c \<in> set cls
      then (case match_alt rest cs of None \<Rightarrow> None | Some (m, r) \<Rightarrow> Some (c # m, r))
      else None)"

definition match_group :: "string list list \<Rightarrow> string \<Rightarrow> (string \<times> string) list" where
  "match_group alts s = List.map_filter (\<lambda>a. match_alt a s) alts"

definition year_group :: "string list list" where
  "year_group = [[digits, digits, digits, digits]]"

definition dash :: "string list list" where
  "dash = [[''-'']]"

definition month_group :: "string list list" where
  "month_group = [[''1'', ''012''], [''0'', nonzero_digits], [nonzero_digits]]"

definition day_group :: "string list list" where
  "day_group =
     [[''3'', ''01''], [''12'', digits], [''0'', nonzero_digits], [nonzero_digits],
      ['' '', nonzero_digits]]"

definition match_ymd :: "string \<Rightarrow> (string \<times> string \<times> string \<times> string) list" where
  "match_ymd s =
     [(y, m, d, r4).
        (y, r0) \<leftarrow> match_group year_group s,
        (_, r1) \<leftarrow> match_group dash r0,
        (m, r2) \<leftarrow> match_group month_group r1,
        (_, r3) \<leftarrow> match_group dash r2,
        (d, r4) \<leftarrow> match_group day_group r3]"

text \<open>\<^verbatim>\<open>int(s)\<close> on a matched group: blanks around the digits are dropped.\<close>

definition digit_value :: "char \<Rightarrow> nat" where
  "digit_value c = of_char c - 48"

definition py_int :: "string \<Rightarrow> nat" where
  "py_int s = foldl (\<lambda>n c. 10 * n + digit_value c) 0 (filter (\<lambda>c. c \<noteq> CHR '' '') s)"

text \<open>\<open>None\<close> stands for the \<^verbatim>\<open>ValueError\<close> of \<^verbatim>\<open>strptime\<close>.\<close>

definition strptime :: "string \<Rightarrow> date option" where
  "strptime s =
     (case match_ymd s of
        [] \<Rightarrow> None
      | (y, m, d, rest) # _ \<Rightarrow>
          if rest \<noteq> [] then None else make_date (py_int y) (py_int m) (py_int d))"

subsection \<open>Validators\<close>

datatype date_error = PastDate | TooFarFuture date | InvalidFormat

text \<open>
  \<^verbatim>\<open>validate_date(date)\<close>, with the current day as the parameter \<open>today\<close>. The result is
  the message returned (\<open>None\<close> for success). Both \<^verbatim>\<open>strptime\<close> and \<^verbatim>\<open>replace\<close> stand
  inside the \<^verbatim>\<open>try\<close>, and the handler of \<^verbatim>\<open>ValueError\<close> returns the format message.
\<close>

definition validate_date :: "date \<Rightarrow> string \<Rightarrow> date_error option" where
  "validate_date today s =
     (case strptime s of
        None \<Rightarrow> Some InvalidFormat
      | Some forecast_date \<Rightarrow>
          (case replace_year today (year today + 1) of
             None \<Rightarrow> Some InvalidFormat
           | Some max_forecast_date \<Rightarrow>
               if date_less forecast_date today then Some PastDate
               else if date_less max_forecast_date forecast_date
                 then Some (TooFarFuture max_forecast_date)
               else None))"

definition VALID_PHONE_COUNTRY_CODES :: "(string \<times> string) list" where
  "VALID_PHONE_COUNTRY_CODES =
     [(''1'', ''United States/Canada''),
      (''91'', ''India''),
      (''44'', ''United Kingdom''),
      (''86'', ''China''),
      (''7'', ''Russia'')]"

datatype code_error = UnknownCode string

definition validate_phone_country_code :: "string \<Rightarrow> code_error option" where
  "validate_phone_country_code code =
     (if map_of VALID_PHONE_COUNTRY_CODES code = None then Some (UnknownCode code) else None)"

subsection \<open>Clients\<close>

text \<open>
  What \<^verbatim>\<open>requests.get(url).json()\<close> gives: the request (or the decoding of its answer)
  raises a \<^verbatim>\<open>RequestException\<close>, or it yields the decoded body, any JSON value.
\<close>

datatype response = RequestFailed | Body pyval

text \<open>
  \<^verbatim>\<open>get_coordinates\<close>: the request is not inside a \<^verbatim>\<open>try\<close>, so its exception leaves
  the function. The condition is \<^verbatim>\<open>"results" in data and data["results"]\<close>.
\<close>

definition get_coordinates :: "response \<Rightarrow> py_error + (pyval \<times> pyval)" where
  "get_coordinates resp =
     (case resp of
        RequestFailed \<Rightarrow> Inl RequestException
      | Body data \<Rightarrow>
          and_then (py_in ''results'' data) (\<lambda>present.
          if present
          then and_then (subscript_key data ''results'') (\<lambda>results.
               if truthy results
               then and_then (subscript0 results) (\<lambda>location.
                    and_then (py_get location ''latitude'' PNone) (\<lambda>lat.
                    and_then (py_get location ''longitude'' PNone) (\<lambda>lon.
                    Inr (lat, lon))))
               else Inr (PNone, PNone))
          else Inr (PNone, PNone)))"



text \<open>
  \<^verbatim>\<open>get_weather_openweathermap\<close>: every lookup has a default, and nothing but the
  request can end in \<^verbatim>\<open>return None\<close>.
\<close>

definition get_weather_openweathermap :: "response \<Rightarrow> py_error + pydict option" where
  "get_weather_openweathermap resp =
     (case resp of
        RequestFailed \<Rightarrow> Inr None
      | Body data \<Rightarrow>
          and_then (py_get data ''current'' (PDict [])) (\<lambda>current_data.
          and_then (py_get current_data ''temp'' PNone) (\<lambda>tmax.
          and_then (py_get current_data ''temp'' PNone) (\<lambda>tmin.
          and_then (and_then (py_get current_data ''rain'' (PDict []))
                      (\<lambda>rain. py_get rain ''1h'' (PInt 0))) (\<lambda>prec.
          Inr (Some [(''max_temp'', tmax), (''min_temp'', tmin),
                     (''precipitation'', prec)]))))))"

subsection \<open>Merger\<close>

text \<open>
  \<^verbatim>\<open>safe_average\<close>: the last line is \<^verbatim>\<open>(value1 + value2) / 2\<close> in Python's own
  arithmetic.
\<close>

definition safe_average :: "pyval \<Rightarrow> pyval \<Rightarrow> py_error + pyval" where
  "safe_average value1 value2 =
     (if value1 = PNone \<and> value2 = PNone then Inr (PInt 0)
      else if value1 = PNone then Inr value2
      else if value2 = PNone then Inr value1
      else and_then (py_add value1 value2) py_div2)"

definition zero_forecast :: pydict where
  "zero_forecast = [(''max_temp'', PInt 0), (''min_temp'', PInt 0), (''precipitation'', PInt 0)]"

text \<open>\<^verbatim>\<open>f or {...zeros...}\<close>: an absent or empty dictionary gives the zeros.\<close>

definition or_zero :: "pydict option \<Rightarrow> pydict" where
  "or_zero f = (case f of None \<Rightarrow> zero_forecast | Some d \<Rightarrow> if d = [] then zero_forecast else d)"

definition calculate_forecast :: "pydict option \<Rightarrow> pydict option \<Rightarrow> py_error + pydict" where
  "calculate_forecast forecast1 forecast2 =
     (case forecast1 of
        None \<Rightarrow> Inr (or_zero forecast2)
      | Some f1 \<Rightarrow>
          (case forecast2 of
             None \<Rightarrow> Inr (or_zero forecast1)
           | Some f2 \<Rightarrow>
               and_then (safe_average (dict_get f1 ''max_temp'' PNone)
                                      (dict_get f2 ''max_temp'' PNone)) (\<lambda>tmax.
               and_then (safe_average (dict_get f1 ''min_temp'' PNone)
                                      (dict_get f2 ''min_temp'' PNone)) (\<lambda>tmin.
               and_then (safe_average (dict_get f1 ''precipitation'' PNone)
                                      (dict_get f2 ''precipitation'' PNone)) (\<lambda>prec.
               Inr [(''max_temp'', tmax), (''min_temp'', tmin), (''precipitation'', prec)])))))"

subsection \<open>Icon selector\<close>

text \<open>
  \<^verbatim>\<open>get_weather_icon\<close>: the file chosen by the chain of comparisons (loading and scaling
  the image is left to the toolkit). \<^verbatim>\<open>precipitation == 0\<close> is false for a value that is
  not a number, and the comparison \<^verbatim>\<open>0 < precipitation\<close> that follows raises
  \<^verbatim>\<open>TypeError\<close> for it.
\<close>

definition get_weather_icon :: "pyval \<Rightarrow> py_error + string" where
  "get_weather_icon precipitation =
     (case as_number precipitation of
        None \<Rightarrow> Inl TypeError
      | Some n \<Rightarrow>
          (let p = value_of n in
           Inr (if p = Finite 0 then ''sun.png''
                else if fl_less (Finite 0) p \<and> fl_le p (Finite 2) then ''cloudy.png''
                else if fl_less (Finite 2) p \<and> fl_le p (Finite 10) then ''rain.png''
                else ''snow.png'')))"

subsection \<open>Vocabulary of the properties\<close>

text \<open>The keys of a forecast dictionary, in the order the clients and the merger write them.\<close>

definition forecast_fields :: "string list" where
  "forecast_fields = [''max_temp'', ''min_temp'', ''precipitation'']"

text \<open>
  A field as the data model has it: a number, or absent. The number is a float or an
  integer below \<open>2 ^ 1023\<close> in magnitude, so that it and its sum with another one can be
  turned into a float.
\<close>

definition number_or_absent :: "pyval \<Rightarrow> bool" where
  "number_or_absent v =
     (case v of PNone \<Rightarrow> True | PInt i \<Rightarrow> \<bar>i\<bar> < 2 ^ 1023 | PFloat x \<Rightarrow> True | _ \<Rightarrow> False)"

text \<open>A rational that is a double: rounding leaves it as it is.\<close>

definition representable :: "rat \<Rightarrow> bool" where
  "representable q = (round_to_float q = Finite q)"

text \<open>The exact value of a finite number.\<close>

fun exact_value :: "pyval \<Rightarrow> rat option" where
  "exact_value (PInt i) = Some (of_int i)"
| "exact_value (PFloat (Finite q)) = Some q"
| "exact_value _ = None"

text \<open>Sample forecasts. The doubles nearest to 20.1, 21.2 and 20.65 are written out.\<close>

definition forecast_10_5_0 :: pydict where
  "forecast_10_5_0 = [(''max_temp'', PInt 10), (''min_temp'', PInt 5), (''precipitation'', PInt 0)]"

definition forecast_20_7_4 :: pydict where
  "forecast_20_7_4 = [(''max_temp'', PInt 20), (''min_temp'', PInt 7), (''precipitation'', PInt 4)]"

definition forecast_10_none_0 :: pydict where
  "forecast_10_none_0 = [(''max_temp'', PInt 10), (''min_temp'', PNone), (''precipitation'', PInt 0)]"

definition double_20_1 :: rat where
  "double_20_1 = 2828823515942093 / 140737488355328"

definition double_21_2 :: rat where
  "double_21_2 = 5967269506265907 / 281474976710656"

definition double_20_65 :: rat where
  "double_20_65 = 2906229134537523 / 140737488355328"

definition forecast_20_1 :: pydict where
  "forecast_20_1 =
     [(''max_temp'', PFloat (Finite double_20_1)), (''min_temp'', PInt 9007199254740993),
      (''precipitation'', PInt 0)]"

definition forecast_21_2 :: pydict where
  "forecast_21_2 =
     [(''max_temp'', PFloat (Finite double_21_2)), (''min_temp'', PInt 0),
      (''precipitation'', PInt 0)]"

definition forecast_huge :: pydict where
  "forecast_huge =
     [(''max_temp'', PInt (2 ^ 1024)), (''min_temp'', PInt 5), (''precipitation'', PInt 0)]"

text \<open>Sample response bodies and a sample current day.\<close>

definition body_without_daily :: pydict where
  "body_without_daily = [(''error'', PBool True), (''reason'', PStr ''out of range'')]"






definition body_current_temp_only :: pydict where
  "body_current_temp_only = [(''current'', PDict [(''temp'', PInt 21)])]"

definition leap_day_2024 :: date where
  "leap_day_2024 = \<lparr>year = 2024, month = 2, day = 29\<rparr>"

section \<open>Properties\<close>

subsection \<open>Rounding\<close>

lemma pow2_add: "(2::rat) powi (a + b) = 2 powi a * 2 powi b"
  by (simp add: power_int_add)

lemma pow2_diff: "(2::rat) powi (a - b) = 2 powi a / 2 powi b"
  by (simp add: power_int_diff)

lemma bitlen_powi_bounds:
  assumes "0 < (n::int)"
  shows "(2::rat) powi (bitlen n - 1) \<le> of_int n" and "of_int n < (2::rat) powi bitlen n"
proof -
  from assms have b: "1 \<le> bitlen n" by (simp add: bitlen_alt_def)
  from bitlen_bounds [OF assms]
  have lo: "2 ^ nat (bitlen n - 1) \<le> n" and hi: "n < 2 ^ nat (bitlen n)" by simp_all
  from lo have "(of_int (2 ^ nat (bitlen n - 1)) :: rat) \<le> of_int n"
    by (simp only: of_int_le_iff)
  with b show "(2::rat) powi (bitlen n - 1) \<le> of_int n"
    by (simp add: power_int_nonneg_exp)
  from hi have "(of_int n :: rat) < of_int (2 ^ nat (bitlen n))"
    by (simp only: of_int_less_iff)
  with b show "of_int n < (2::rat) powi bitlen n"
    by (simp add: power_int_nonneg_exp)
qed

text \<open>\<open>floor_log2\<close> is the binary exponent.\<close>

lemma floor_log2_bounds:
  assumes "0 < q"
  shows "2 powi floor_log2 q \<le> q" and "q < 2 powi (floor_log2 q + 1)"
proof -
  obtain p d where pd: "quotient_of q = (p, d)" by force
  have d: "0 < d" using quotient_of_denom_pos [OF pd] .
  have q: "q = of_int p / of_int d" using quotient_of_div [OF pd] .
  have p: "0 < p" using assms d q by (simp add: zero_less_divide_iff)
  let ?e = "bitlen p - bitlen d"
  have fl: "floor_log2 q = (if 2 powi ?e \<le> q then ?e else ?e - 1)"
    by (simp add: floor_log2_def pd)
  have dpos: "(0::rat) < of_int d" using d by simp
  have "q < 2 powi bitlen p / 2 powi (bitlen d - 1)"
    unfolding q using bitlen_powi_bounds [OF p] bitlen_powi_bounds [OF d] dpos
    by (intro frac_less) (auto simp: p less_imp_le)
  also have "\<dots> = 2 powi (?e + 1)"
    by (simp add: pow2_diff pow2_add)
  finally have up: "q < 2 powi (?e + 1)" .
  have "(2::rat) powi (?e - 1) = 2 powi (bitlen p - 1) / 2 powi bitlen d"
    by (simp add: pow2_diff)
  also have "\<dots> \<le> q"
    unfolding q using bitlen_powi_bounds [OF p] bitlen_powi_bounds [OF d] dpos
    by (intro frac_le) (use p in \<open>auto simp: less_imp_le\<close>)
  finally have lo: "2 powi (?e - 1) \<le> q" .
  show "2 powi floor_log2 q \<le> q" using lo by (simp add: fl)
  show "q < 2 powi (floor_log2 q + 1)" using up by (auto simp: fl not_le)
qed

lemma floor_log2_unique:
  assumes "0 < q" and "2 powi e \<le> q" and "q < 2 powi (e + 1)"
  shows "floor_log2 q = e"
proof (rule ccontr)
  assume ne: "floor_log2 q \<noteq> e"
  let ?f = "floor_log2 q"
  from floor_log2_bounds [OF assms(1)] have f: "2 powi ?f \<le> q" "q < 2 powi (?f + 1)" .
  from ne consider "?f + 1 \<le> e" | "e + 1 \<le> ?f" by linarith
  then show False
  proof cases
    case 1
    then have "(2::rat) powi (?f + 1) \<le> 2 powi e" by (intro power_int_increasing) simp_all
    with f(2) assms(2) show False by simp
  next
    case 2
    then have "(2::rat) powi (e + 1) \<le> 2 powi ?f" by (intro power_int_increasing) simp_all
    with f(1) assms(3) show False by simp
  qed
qed

lemma round_half_even_of_int: "round_half_even (of_int n) = n"
  by (simp add: round_half_even_def)

lemma round_half_even_nonneg: "0 \<le> x \<Longrightarrow> 0 \<le> round_half_even x"
  by (auto simp: round_half_even_def Let_def)

lemma round_half_even_le:
  assumes "x \<le> of_int m"
  shows "round_half_even x \<le> m"
proof -
  have f: "\<lfloor>x\<rfloor> \<le> m" using assms by (simp add: floor_le_iff)
  show ?thesis
  proof (cases "x = of_int \<lfloor>x\<rfloor>")
    case True
    then have "round_half_even x = \<lfloor>x\<rfloor>"
      by (metis round_half_even_of_int)
    with f show ?thesis by simp
  next
    case False
    with of_int_floor_le [of x] have "of_int \<lfloor>x\<rfloor> < x" by linarith
    with assms have "(of_int \<lfloor>x\<rfloor> :: rat) < of_int m" by simp
    then have "\<lfloor>x\<rfloor> + 1 \<le> m" by simp
    then show ?thesis using f by (auto simp: round_half_even_def Let_def)
  qed
qed

lemma nearest_double_minus: "nearest_double (- q) = - nearest_double q"
  by (simp add: nearest_double_def Let_def)

text \<open>Rounding a positive number whose binary exponent is known.\<close>

lemma nearest_double_normal:
  assumes "0 < q" and "2 powi e \<le> q" and "q < 2 powi (e + 1)" and "- 1022 \<le> e"
  shows "nearest_double q = of_int (round_half_even (q / 2 powi (e - 52))) * 2 powi (e - 52)"
  using assms floor_log2_unique [OF assms(1-3)]
  by (simp add: nearest_double_def Let_def max_def)

text \<open>A significand of at most 53 bits with an exponent in range is not changed.\<close>

lemma nearest_double_exact:
  assumes m: "\<bar>m\<bar> < 2 ^ 53" and k: "- 1074 \<le> k"
  shows "nearest_double (of_int m * 2 powi k) = of_int m * 2 powi k"
proof (cases "m = 0")
  case True
  then show ?thesis by (simp add: nearest_double_def)
next
  case False
  let ?q = "of_int m * (2::rat) powi k"
  let ?a = "\<bar>?q\<bar>"
  have a: "?a = of_int \<bar>m\<bar> * 2 powi k" by (simp add: abs_mult)
  have apos: "0 < ?a" using False by simp
  let ?f = "floor_log2 ?a"
  let ?e = "max ?f (- 1022)"
  have "(of_int \<bar>m\<bar> :: rat) < of_int (2 ^ 53)" using m by (simp only: of_int_less_iff)
  then have "?a < 2 powi 53 * 2 powi k" unfolding a by (intro mult_strict_right_mono) simp_all
  then have lt: "?a < 2 powi (53 + k)" by (simp add: pow2_add)
  have "?f < 53 + k"
  proof (rule ccontr)
    assume "\<not> ?f < 53 + k"
    then have "(2::rat) powi (53 + k) \<le> 2 powi ?f" by (intro power_int_increasing) simp_all
    with floor_log2_bounds(1) [OF apos] lt show False by simp
  qed
  with k have j: "0 \<le> k - (?e - 52)" by (simp add: max_def)
  have "?a / 2 powi (?e - 52) = of_int \<bar>m\<bar> * 2 powi (k - (?e - 52))"
    unfolding a by (simp add: pow2_diff)
  also have "\<dots> = of_int (\<bar>m\<bar> * 2 ^ nat (k - (?e - 52)))"
    using j by (simp add: power_int_nonneg_exp)
  finally have "round_half_even (?a / 2 powi (?e - 52)) = \<bar>m\<bar> * 2 ^ nat (k - (?e - 52))"
    by (simp only: round_half_even_of_int)
  then have "(of_int (round_half_even (?a / 2 powi (?e - 52))) :: rat) * 2 powi (?e - 52)
      = of_int \<bar>m\<bar> * (2 powi (k - (?e - 52)) * 2 powi (?e - 52))"
    using j by (simp add: power_int_nonneg_exp)
  also have "\<dots> = ?a"
    unfolding a by (simp add: pow2_add [symmetric])
  finally have "nearest_double ?q = sgn ?q * ?a"
    using False by (simp add: nearest_double_def Let_def mult.assoc)
  then show ?thesis by (simp add: sgn_mult_abs)
qed

text \<open>Below \<open>2 ^ 1023\<close> in magnitude, rounding stays within the range of the doubles.\<close>

lemma nearest_double_bound:
  assumes "\<bar>q\<bar> < 2 ^ 1023"
  shows "\<bar>nearest_double q\<bar> \<le> 2 ^ 1023"
proof (cases "q = 0")
  case True
  then show ?thesis by (simp add: nearest_double_def)
next
  case False
  let ?a = "\<bar>q\<bar>"
  have apos: "0 < ?a" using False by simp
  let ?f = "floor_log2 ?a"
  let ?e = "max ?f (- 1022)"
  let ?ulp = "(2::rat) powi (?e - 52)"
  let ?n = "round_half_even (?a / ?ulp)"
  have "?f < 1023"
  proof (rule ccontr)
    assume "\<not> ?f < 1023"
    then have "(2::rat) powi 1023 \<le> 2 powi ?f" by (intro power_int_increasing) simp_all
    with floor_log2_bounds(1) [OF apos] assms show False by simp
  qed
  then have e: "?e + 1 \<le> 1023" by simp
  have "?a < 2 powi (?f + 1)" using floor_log2_bounds(2) [OF apos] .
  also have "\<dots> \<le> 2 powi (?e + 1)" by (intro power_int_increasing) simp_all
  finally have "?a / ?ulp < 2 powi (?e + 1) / ?ulp"
    by (intro divide_strict_right_mono) simp_all
  also have "\<dots> = of_int (2 ^ 53)" by (simp add: pow2_diff [symmetric])
  finally have "?n \<le> 2 ^ 53" by (intro round_half_even_le) simp
  moreover have n0: "0 \<le> ?n" by (intro round_half_even_nonneg) simp
  ultimately have "(of_int ?n :: rat) \<le> of_int (2 ^ 53)" by (simp only: of_int_le_iff)
  then have "of_int ?n * ?ulp \<le> of_int (2 ^ 53) * ?ulp"
    by (intro mult_right_mono) simp_all
  also have "\<dots> = 2 powi (?e + 1)"
    by (simp add: pow2_diff pow2_add)
  also have "\<dots> \<le> 2 powi 1023" using e by (intro power_int_increasing) simp_all
  finally have "of_int ?n * ?ulp \<le> 2 ^ 1023" by simp
  moreover have "\<bar>nearest_double q\<bar> = of_int ?n * ?ulp"
    using False n0 by (simp add: nearest_double_def Let_def abs_mult)
  ultimately show ?thesis by simp
qed

lemma round_or_raise_bounded:
  assumes "\<bar>q\<bar> < 2 ^ 1023"
  shows "round_or_raise q = Inr (Finite (nearest_double q))"
proof -
  have "\<bar>nearest_double q\<bar> < double_limit"
    using nearest_double_bound [OF assms] by (simp add: double_limit_def)
  then show ?thesis by (simp add: round_or_raise_def Let_def)
qed

lemma representable_iff:
  "representable q \<longleftrightarrow> nearest_double q = q \<and> \<bar>q\<bar> < double_limit"
  by (auto simp: representable_def round_to_float_def Let_def double_limit_def
           split: if_splits)

lemma representable_round_or_raise:
  "representable q \<Longrightarrow> round_or_raise q = Inr (Finite q)"
  by (simp add: representable_iff round_or_raise_def Let_def)

lemma representable_round_to_float:
  "representable q \<Longrightarrow> round_to_float q = Finite q"
  by (simp add: representable_def)

lemma representableI:
  assumes m: "\<bar>m\<bar> < 2 ^ 53" and k: "- 1074 \<le> k" "k \<le> 971"
  shows "representable (of_int m * 2 powi k)"
proof -
  have "(of_int \<bar>m\<bar> :: rat) < of_int (2 ^ 53)"
    using m by (simp only: of_int_less_iff)
  then have "of_int \<bar>m\<bar> * (2::rat) powi k < of_int (2 ^ 53) * 2 powi k"
    by (intro mult_strict_right_mono) simp_all
  also have "\<dots> = 2 powi (53 + k)" by (simp add: pow2_add)
  also have "\<dots> \<le> 2 powi 1024" using k by (intro power_int_increasing) simp_all
  finally have "\<bar>of_int m * (2::rat) powi k\<bar> < double_limit"
    by (simp add: abs_mult double_limit_def)
  with nearest_double_exact [OF m k(1)] show ?thesis
    by (simp only: representable_iff simp_thms)
qed

lemma representable_int: "\<bar>m\<bar> < 2 ^ 53 \<Longrightarrow> representable (of_int m)"
  using representableI [of m 0] by simp

lemma representable_dyadic:
  "\<bar>m\<bar> < 2 ^ 53 \<Longrightarrow> n \<le> 1074 \<Longrightarrow> representable (of_int m / 2 ^ n)"
  using representableI [of m "- int n"] by (simp add: power_int_minus field_simps)

subsection \<open>Auxiliary facts\<close>

lemma dict_get_triple:
  "dict_get [(''max_temp'', x), (''min_temp'', y), (''precipitation'', z)] ''max_temp'' d = x"
  "dict_get [(''max_temp'', x), (''min_temp'', y), (''precipitation'', z)] ''min_temp'' d = y"
  "dict_get [(''max_temp'', x), (''min_temp'', y), (''precipitation'', z)] ''precipitation'' d = z"
  by (simp_all add: dict_get_def)

lemma and_then_Inr: "and_then (Inr v) f = f v"
  by (simp add: and_then_def)

lemma and_then_eq_Inr:
  "and_then r f = Inr v \<longleftrightarrow> (\<exists>x. r = Inr x \<and> f x = Inr v)"
  by (cases r) (simp_all add: and_then_def)

lemma fl_add_commute: "fl_add x y = fl_add y x"
  by (cases x; cases y) (simp_all add: add.commute)

lemma num_add_commute: "num_add m n = num_add n m"
  by (cases m; cases n) (simp_all add: add.commute fl_add_commute)

lemma py_div2_not_number: "as_number v = None \<Longrightarrow> py_div2 v = Inl TypeError"
  by (simp add: py_div2_def)

text \<open>
  The sum is not symmetric on strings and lists, but halving it raises the same error in
  both orders.
\<close>

lemma add_halve_commute:
  "and_then (py_add v1 v2) py_div2 = and_then (py_add v2 v1) py_div2"
proof (cases "as_number v1")
  case None
  then show ?thesis
    by (cases v1; cases v2) (simp_all add: py_add_def and_then_def py_div2_not_number)
next
  case m: (Some m)
  show ?thesis
  proof (cases "as_number v2")
    case None
    with m show ?thesis
      by (cases v1; cases v2) (simp_all add: py_add_def and_then_def py_div2_not_number)
  next
    case (Some n)
    with m show ?thesis by (simp add: py_add_def num_add_commute [of m n])
  qed
qed

lemma safe_average_commute: "safe_average v1 v2 = safe_average v2 v1"
  using add_halve_commute [of v1 v2] by (simp add: safe_average_def)

text \<open>The mean of two numbers of the data model is defined.\<close>

lemma int_to_float_bounded:
  assumes "\<bar>a\<bar> < 2 ^ 1023"
  shows "round_or_raise (of_int a) = Inr (Finite (nearest_double (of_int a)))"
proof -
  from assms have "(of_int \<bar>a\<bar> :: rat) < of_int (2 ^ 1023)" by (simp only: of_int_less_iff)
  then have "\<bar>of_int a :: rat\<bar> < 2 ^ 1023" by simp
  then show ?thesis by (rule round_or_raise_bounded)
qed

lemma add_halve_ints:
  assumes "\<bar>a\<bar> < 2 ^ 1023" and "\<bar>b\<bar> < 2 ^ 1023"
  shows "\<exists>w. and_then (py_add (PInt a) (PInt b)) py_div2 = Inr w"
proof -
  from assms have "\<bar>a + b\<bar> < 2 * 2 ^ 1023" by linarith
  then have "(of_int \<bar>a + b\<bar> :: rat) < of_int (2 * 2 ^ 1023)" by (simp only: of_int_less_iff)
  then have "\<bar>(of_int (a + b) :: rat) / 2\<bar> < 2 ^ 1023" by simp
  from round_or_raise_bounded [OF this] show ?thesis
    by (simp add: py_add_def py_div2_def and_then_def)
qed

lemma add_halve_int_float:
  assumes "\<bar>a\<bar> < 2 ^ 1023"
  shows "\<exists>w. and_then (py_add (PInt a) (PFloat y)) py_div2 = Inr w"
    and "\<exists>w. and_then (py_add (PFloat y) (PInt a)) py_div2 = Inr w"
  by (simp_all add: py_add_def py_div2_def and_then_def int_to_float_bounded [OF assms])

lemma add_halve_floats: "\<exists>w. and_then (py_add (PFloat x) (PFloat y)) py_div2 = Inr w"
  by (simp add: py_add_def py_div2_def and_then_def)

lemma add_halve_defined:
  assumes "number_or_absent v1" and "number_or_absent v2" and "v1 \<noteq> PNone" and "v2 \<noteq> PNone"
  shows "\<exists>w. and_then (py_add v1 v2) py_div2 = Inr w"
proof (cases v1)
  case i: (PInt a)
  with assms(1) have a: "\<bar>a\<bar> < 2 ^ 1023" by (simp add: number_or_absent_def)
  show ?thesis
  proof (cases v2)
    case (PInt b)
    with assms(2) have "\<bar>b\<bar> < 2 ^ 1023" by (simp add: number_or_absent_def)
    with a show ?thesis unfolding i PInt by (rule add_halve_ints)
  next
    case (PFloat y)
    show ?thesis unfolding i PFloat using a by (rule add_halve_int_float)
  qed (use assms in \<open>simp_all add: number_or_absent_def\<close>)
next
  case f: (PFloat x)
  show ?thesis
  proof (cases v2)
    case (PInt b)
    with assms(2) have "\<bar>b\<bar> < 2 ^ 1023" by (simp add: number_or_absent_def)
    then show ?thesis unfolding f PInt by (rule add_halve_int_float)
  next
    case (PFloat y)
    show ?thesis unfolding f PFloat by (rule add_halve_floats)
  qed (use assms in \<open>simp_all add: number_or_absent_def\<close>)
qed (use assms in \<open>simp_all add: number_or_absent_def\<close>)

text \<open>Where the sum and its half are doubles, the computed mean is the exact one.\<close>

lemma add_halve_exact:
  assumes "exact_value v1 = Some x" and "exact_value v2 = Some y"
    and "representable x" and "representable y"
    and "representable (x + y)" and "representable ((x + y) / 2)"
  shows "and_then (py_add v1 v2) py_div2 = Inr (PFloat (Finite ((x + y) / 2)))"
proof -
  note r = representable_round_or_raise representable_round_to_float
  from assms show ?thesis
    by (cases v1 rule: exact_value.cases; cases v2 rule: exact_value.cases)
       (auto simp: py_add_def py_div2_def and_then_def r)
qed

lemma exact_value_not_none: "exact_value v = Some x \<Longrightarrow> v \<noteq> PNone"
  by auto

lemma safe_average_fields:
  assumes "number_or_absent v1" and "number_or_absent v2"
  shows "\<exists>w. safe_average v1 v2 = Inr w \<and>
           (v1 \<noteq> PNone \<and> v2 \<noteq> PNone \<longrightarrow> and_then (py_add v1 v2) py_div2 = Inr w) \<and>
           (\<forall>x y. exact_value v1 = Some x \<and> exact_value v2 = Some y \<and>
                  representable x \<and> representable y \<and>
                  representable (x + y) \<and> representable ((x + y) / 2)
              \<longrightarrow> w = PFloat (Finite ((x + y) / 2))) \<and>
           (v1 \<noteq> PNone \<and> v2 = PNone \<longrightarrow> w = v1) \<and>
           (v1 = PNone \<and> v2 \<noteq> PNone \<longrightarrow> w = v2)"
proof (cases "v1 = PNone \<or> v2 = PNone")
  case True
  then show ?thesis by (auto simp: safe_average_def)
next
  case False
  with add_halve_defined [OF assms] obtain w where
    w: "and_then (py_add v1 v2) py_div2 = Inr w" by auto
  with False have "safe_average v1 v2 = Inr w" by (simp add: safe_average_def)
  moreover have "w = PFloat (Finite ((x + y) / 2))"
    if "exact_value v1 = Some x" "exact_value v2 = Some y" "representable x" "representable y"
      "representable (x + y)" "representable ((x + y) / 2)" for x y
    using add_halve_exact [OF that] w by simp
  ultimately show ?thesis using False w by blast
qed

lemma round_half_even_tie:
  assumes "x = of_int f + 1 / 2"
  shows "round_half_even x = (if even f then f else f + 1)"
proof -
  have "\<lfloor>x\<rfloor> = f" unfolding assms by (rule floor_unique) simp_all
  then show ?thesis by (simp add: round_half_even_def Let_def assms)
qed

text \<open>
  The sum of the doubles nearest to 20.1 and 21.2 lies halfway between two doubles and is
  rounded to the even one; its half is the double nearest to 20.65.
\<close>

lemma sum_20_1_21_2:
  "round_to_float (double_20_1 + double_21_2) = Finite (2906229134537523 / 70368744177664)"
proof -
  let ?q = "double_20_1 + double_21_2"
  have q: "?q = 11624916538150093 / 281474976710656"
    by (simp add: double_20_1_def double_21_2_def)
  have "nearest_double ?q = of_int (round_half_even (?q / 2 powi (5 - 52))) * 2 powi (5 - 52)"
    by (rule nearest_double_normal) (simp_all add: q)
  also have "round_half_even (?q / 2 powi (5 - 52)) = 5812458269075046"
    using round_half_even_tie [of "?q / 2 powi (5 - 52)" 5812458269075046] by (simp add: q)
  finally show ?thesis
    by (simp add: round_to_float_def double_limit_def)
qed

lemma half_41_3:
  "round_to_float (2906229134537523 / 140737488355328) = Finite double_20_65"
  using representable_dyadic [of 2906229134537523 47]
  by (simp add: representable_def double_20_65_def)

lemma half_of_2_53_plus_1:
  "round_or_raise (of_int 9007199254740993 / 2) = Inr (Finite 4503599627370496)"
proof -
  let ?q = "(of_int 9007199254740993 :: rat) / 2"
  have "nearest_double ?q = of_int (round_half_even (?q / 2 powi (52 - 52))) * 2 powi (52 - 52)"
    by (rule nearest_double_normal) simp_all
  also have "round_half_even (?q / 2 powi (52 - 52)) = 4503599627370496"
    using round_half_even_tie [of "?q / 2 powi (52 - 52)" 4503599627370496] by simp
  finally show ?thesis
    by (simp add: round_or_raise_def double_limit_def)
qed

lemma half_of_2_1025:
  "round_or_raise (of_int (2 ^ 1024 + 2 ^ 1024) / 2) = Inl OverflowError"
proof -
  have "nearest_double (of_int 1 * 2 powi 1024) = of_int 1 * 2 powi 1024"
    by (rule nearest_double_exact) simp_all
  then have "nearest_double (of_int (2 ^ 1024 + 2 ^ 1024) / 2) = 2 ^ 1024"
    by simp
  then show ?thesis
    by (simp add: round_or_raise_def double_limit_def)
qed

lemma round_or_raise_zero: "round_or_raise 0 = Inr (Finite 0)"
  by (simp add: round_or_raise_def nearest_double_def double_limit_def)

lemma sample_fields:
  "dict_get forecast_10_5_0 ''max_temp'' PNone = PInt 10"
  "dict_get forecast_10_5_0 ''min_temp'' PNone = PInt 5"
  "dict_get forecast_10_5_0 ''precipitation'' PNone = PInt 0"
  "dict_get forecast_20_7_4 ''max_temp'' PNone = PInt 20"
  "dict_get forecast_20_7_4 ''min_temp'' PNone = PInt 7"
  "dict_get forecast_20_7_4 ''precipitation'' PNone = PInt 4"
  "dict_get forecast_10_none_0 ''max_temp'' PNone = PInt 10"
  "dict_get forecast_10_none_0 ''min_temp'' PNone = PNone"
  "dict_get forecast_10_none_0 ''precipitation'' PNone = PInt 0"
  by (simp_all add: forecast_10_5_0_def forecast_20_7_4_def forecast_10_none_0_def
        dict_get_triple)

lemma sample_doubles:
  "representable 0" "representable 2" "representable 4" "representable 5" "representable 6"
  "representable 7" "representable 10" "representable 12" "representable 15"
  "representable 20" "representable 30"
  using representable_int [of 0] representable_int [of 2] representable_int [of 4]
    representable_int [of 5] representable_int [of 6] representable_int [of 7]
    representable_int [of 10] representable_int [of 12] representable_int [of 15]
    representable_int [of 20] representable_int [of 30]
  by simp_all

subsection \<open>Merger\<close>

text \<open>
  Counterexample to claim C1 as stated. The merged field is the mean as float arithmetic
  computes it, which need not be the arithmetic mean. With the maximum temperatures 20.1
  and 21.2 (both doubles) the result is the double 20.65, not the mean of the two; with
  the integers \<open>2 ^ 53 + 1\<close> and \<open>0\<close> it is \<open>2 ^ 52\<close>, not \<open>2 ^ 52 + 1 / 2\<close>; with twice
  the integer \<open>2 ^ 1024\<close> no forecast is returned: the division raises
  \<^verbatim>\<open>OverflowError\<close>.
\<close>

theorem calculate_forecast_rounds:
  "representable double_20_1 \<and> representable double_21_2 \<and>
   calculate_forecast (Some forecast_20_1) (Some forecast_21_2) =
     Inr [(''max_temp'', PFloat (Finite double_20_65)),
          (''min_temp'', PFloat (Finite 4503599627370496)),
          (''precipitation'', PFloat (Finite 0))] \<and>
   (double_20_1 + double_21_2) / 2 \<noteq> double_20_65 \<and>
   (9007199254740993 + 0) / 2 \<noteq> (4503599627370496 :: rat) \<and>
   calculate_forecast (Some forecast_huge) (Some forecast_huge) = Inl OverflowError"
proof -
  have "representable double_20_1"
    using representable_dyadic [of 2828823515942093 47] by (simp add: double_20_1_def)
  moreover have "representable double_21_2"
    using representable_dyadic [of 5967269506265907 48] by (simp add: double_21_2_def)
  moreover have "calculate_forecast (Some forecast_20_1) (Some forecast_21_2) =
     Inr [(''max_temp'', PFloat (Finite double_20_65)),
          (''min_temp'', PFloat (Finite 4503599627370496)),
          (''precipitation'', PFloat (Finite 0))]"
    using half_of_2_53_plus_1
    by (simp add: calculate_forecast_def forecast_20_1_def forecast_21_2_def dict_get_triple
          safe_average_def py_add_def py_div2_def and_then_def sum_20_1_21_2 half_41_3
          round_or_raise_zero)
  moreover have "(double_20_1 + double_21_2) / 2 \<noteq> double_20_65"
    by (simp add: double_20_1_def double_21_2_def double_20_65_def)
  moreover have "(9007199254740993 + 0) / 2 \<noteq> (4503599627370496 :: rat)"
    by simp
  moreover have "calculate_forecast (Some forecast_huge) (Some forecast_huge) = Inl OverflowError"
    using half_of_2_1025
    by (simp add: calculate_forecast_def forecast_huge_def dict_get_triple
          safe_average_def py_add_def py_div2_def and_then_def)
  ultimately show ?thesis by blast
qed

text \<open>
  Claim C1, as amended. When both forecasts are present and every field of either is a
  number or absent, \<open>calculate_forecast\<close> returns a forecast with the three fields, in
  which a field that both sides have is the value of \<^verbatim>\<open>(value1 + value2) / 2\<close> in float
  arithmetic: the sum (exact for two integers, rounded to a double otherwise) halved and
  rounded to a double. That is the arithmetic mean whenever the two values, their sum and
  its half are doubles, as in the examples \<open>{10,5,0}\<close> with \<open>{20,7,4}\<close>, which gives
  \<open>{15,6,2}\<close>, and \<open>{10,None,0}\<close> with \<open>{20,7,4}\<close>, which gives \<open>{15,7,2}\<close>. A field
  that only one side has is that side's value, unchanged (the absent side does not count
  as zero).
\<close>

theorem calculate_forecast_both_present:
  assumes "\<forall>k \<in> set forecast_fields.
             number_or_absent (dict_get f1 k PNone) \<and> number_or_absent (dict_get f2 k PNone)"
  shows "\<exists>r. calculate_forecast (Some f1) (Some f2) = Inr r \<and>
           map fst r = forecast_fields \<and>
           (\<forall>k \<in> set forecast_fields.
              (dict_get f1 k PNone \<noteq> PNone \<and> dict_get f2 k PNone \<noteq> PNone \<longrightarrow>
                 and_then (py_add (dict_get f1 k PNone) (dict_get f2 k PNone)) py_div2
                   = Inr (dict_get r k PNone)) \<and>
              (\<forall>x y. exact_value (dict_get f1 k PNone) = Some x \<and>
                     exact_value (dict_get f2 k PNone) = Some y \<and>
                     representable x \<and> representable y \<and>
                     representable (x + y) \<and> representable ((x + y) / 2)
                 \<longrightarrow> dict_get r k PNone = PFloat (Finite ((x + y) / 2))) \<and>
              (dict_get f1 k PNone \<noteq> PNone \<and> dict_get f2 k PNone = PNone
                 \<longrightarrow> dict_get r k PNone = dict_get f1 k PNone) \<and>
              (dict_get f1 k PNone = PNone \<and> dict_get f2 k PNone \<noteq> PNone
                 \<longrightarrow> dict_get r k PNone = dict_get f2 k PNone))"
proof -
  let ?g = "\<lambda>f k. dict_get f k PNone"
  let ?P = "\<lambda>v1 v2 w.
     (v1 \<noteq> PNone \<and> v2 \<noteq> PNone \<longrightarrow> and_then (py_add v1 v2) py_div2 = Inr w) \<and>
     (\<forall>x y. exact_value v1 = Some x \<and> exact_value v2 = Some y \<and>
            representable x \<and> representable y \<and>
            representable (x + y) \<and> representable ((x + y) / 2)
        \<longrightarrow> w = PFloat (Finite ((x + y) / 2))) \<and>
     (v1 \<noteq> PNone \<and> v2 = PNone \<longrightarrow> w = v1) \<and>
     (v1 = PNone \<and> v2 \<noteq> PNone \<longrightarrow> w = v2)"
  from assms have n:
    "number_or_absent (?g f1 ''max_temp'')" "number_or_absent (?g f2 ''max_temp'')"
    "number_or_absent (?g f1 ''min_temp'')" "number_or_absent (?g f2 ''min_temp'')"
    "number_or_absent (?g f1 ''precipitation'')" "number_or_absent (?g f2 ''precipitation'')"
    by (simp_all add: forecast_fields_def)
  from safe_average_fields [OF n(1,2)] obtain x where
    x: "safe_average (?g f1 ''max_temp'') (?g f2 ''max_temp'') = Inr x"
       "?P (?g f1 ''max_temp'') (?g f2 ''max_temp'') x"
    by blast
  from safe_average_fields [OF n(3,4)] obtain y where
    y: "safe_average (?g f1 ''min_temp'') (?g f2 ''min_temp'') = Inr y"
       "?P (?g f1 ''min_temp'') (?g f2 ''min_temp'') y"
    by blast
  from safe_average_fields [OF n(5,6)] obtain z where
    z: "safe_average (?g f1 ''precipitation'') (?g f2 ''precipitation'') = Inr z"
       "?P (?g f1 ''precipitation'') (?g f2 ''precipitation'') z"
    by blast
  let ?r = "[(''max_temp'', x), (''min_temp'', y), (''precipitation'', z)]"
  have r: "calculate_forecast (Some f1) (Some f2) = Inr ?r"
    by (simp add: calculate_forecast_def and_then_def x(1) y(1) z(1))
  have m: "map fst ?r = forecast_fields"
    by (simp add: forecast_fields_def)
  have "?P (?g f1 k) (?g f2 k) (?g ?r k)" if "k \<in> set forecast_fields" for k
  proof -
    from that consider "k = ''max_temp''" | "k = ''min_temp''" | "k = ''precipitation''"
      by (auto simp: forecast_fields_def)
    then show ?thesis
    proof cases
      case 1
      show ?thesis unfolding 1 dict_get_triple by (rule x(2))
    next
      case 2
      show ?thesis unfolding 2 dict_get_triple by (rule y(2))
    next
      case 3
      show ?thesis unfolding 3 dict_get_triple by (rule z(2))
    qed
  qed
  with r m show ?thesis by blast
qed

theorem calculate_forecast_both_present_witness:
  "(\<exists>r. calculate_forecast (Some forecast_10_5_0) (Some forecast_20_7_4) = Inr r \<and>
        map fst r = forecast_fields \<and>
        dict_get r ''max_temp'' PNone = PFloat (Finite 15) \<and>
        dict_get r ''min_temp'' PNone = PFloat (Finite 6) \<and>
        dict_get r ''precipitation'' PNone = PFloat (Finite 2)) \<and>
   (\<exists>r. calculate_forecast (Some forecast_10_none_0) (Some forecast_20_7_4) = Inr r \<and>
        map fst r = forecast_fields \<and>
        dict_get r ''max_temp'' PNone = PFloat (Finite 15) \<and>
        dict_get r ''min_temp'' PNone = PInt 7 \<and>
        dict_get r ''precipitation'' PNone = PFloat (Finite 2))"
proof -
  have full: "\<forall>k \<in> set forecast_fields.
             number_or_absent (dict_get forecast_10_5_0 k PNone) \<and>
             number_or_absent (dict_get forecast_20_7_4 k PNone)"
    by (simp add: forecast_fields_def sample_fields number_or_absent_def)
  have part: "\<forall>k \<in> set forecast_fields.
             number_or_absent (dict_get forecast_10_none_0 k PNone) \<and>
             number_or_absent (dict_get forecast_20_7_4 k PNone)"
    by (simp add: forecast_fields_def sample_fields number_or_absent_def)
  have "\<exists>r. calculate_forecast (Some forecast_10_5_0) (Some forecast_20_7_4) = Inr r \<and>
        map fst r = forecast_fields \<and>
        dict_get r ''max_temp'' PNone = PFloat (Finite 15) \<and>
        dict_get r ''min_temp'' PNone = PFloat (Finite 6) \<and>
        dict_get r ''precipitation'' PNone = PFloat (Finite 2)"
    using calculate_forecast_both_present [OF full]
    by (auto simp: forecast_fields_def sample_fields sample_doubles)
  moreover
  have "\<exists>r. calculate_forecast (Some forecast_10_none_0) (Some forecast_20_7_4) = Inr r \<and>
        map fst r = forecast_fields \<and>
        dict_get r ''max_temp'' PNone = PFloat (Finite 15) \<and>
        dict_get r ''min_temp'' PNone = PInt 7 \<and>
        dict_get r ''precipitation'' PNone = PFloat (Finite 2)"
    using calculate_forecast_both_present [OF part]
    by (auto simp: forecast_fields_def sample_fields sample_doubles)
  ultimately show ?thesis by blast
qed

text \<open>
  Claim C2. With both forecasts absent the result is the forecast of three zeros; with
  exactly one absent the result is the other one, unchanged. A forecast carries its three
  fields, so as a dictionary it is not empty, which is all the second part needs.
\<close>

theorem calculate_forecast_absent_side:
  assumes "F \<noteq> []"
  shows "calculate_forecast None None = Inr zero_forecast \<and>
         calculate_forecast (Some F) None = Inr F \<and>
         calculate_forecast None (Some F) = Inr F"
  using assms by (simp add: calculate_forecast_def or_zero_def)

theorem calculate_forecast_absent_side_witness:
  "forecast_10_none_0 \<noteq> [] \<and>
   calculate_forecast None None =
     Inr [(''max_temp'', PInt 0), (''min_temp'', PInt 0), (''precipitation'', PInt 0)] \<and>
   calculate_forecast (Some forecast_10_none_0) None = Inr forecast_10_none_0 \<and>
   calculate_forecast None (Some forecast_10_none_0) = Inr forecast_10_none_0"
proof -
  have ne: "forecast_10_none_0 \<noteq> []"
    by (simp add: forecast_10_none_0_def)
  from calculate_forecast_absent_side [OF ne] ne show ?thesis
    by (simp add: zero_forecast_def)
qed

text \<open>
  Claim C8. \<open>calculate_forecast\<close> is commutative on all inputs: each side absent or any
  dictionary, whatever fields it has; where one order raises, so does the other, with the
  same error.
\<close>

theorem calculate_forecast_commutes:
  "calculate_forecast f1 f2 = calculate_forecast f2 f1"
proof (cases f1)
  case None
  then show ?thesis by (cases f2) (simp_all add: calculate_forecast_def)
next
  case (Some a)
  then show ?thesis
    by (cases f2)
       (simp_all add: calculate_forecast_def safe_average_commute [of "dict_get a k PNone" for k])
qed

theorem calculate_forecast_commutes_witness:
  "calculate_forecast (Some forecast_10_none_0) (Some forecast_20_7_4) =
     Inr [(''max_temp'', PFloat (Finite 15)), (''min_temp'', PInt 7),
          (''precipitation'', PFloat (Finite 2))] \<and>
   calculate_forecast (Some forecast_20_7_4) (Some forecast_10_none_0) =
     Inr [(''max_temp'', PFloat (Finite 15)), (''min_temp'', PInt 7),
          (''precipitation'', PFloat (Finite 2))]"
proof -
  have a: "and_then (py_add (PInt 10) (PInt 20)) py_div2 = Inr (PFloat (Finite 15))"
    using add_halve_exact [of "PInt 10" 10 "PInt 20" 20] by (simp add: sample_doubles)
  have b: "and_then (py_add (PInt 0) (PInt 4)) py_div2 = Inr (PFloat (Finite 2))"
    using add_halve_exact [of "PInt 0" 0 "PInt 4" 4] by (simp add: sample_doubles)
  have "calculate_forecast (Some forecast_10_none_0) (Some forecast_20_7_4) =
     Inr [(''max_temp'', PFloat (Finite 15)), (''min_temp'', PInt 7),
          (''precipitation'', PFloat (Finite 2))]"
    by (simp add: calculate_forecast_def safe_average_def sample_fields a b and_then_Inr)
  with calculate_forecast_commutes [of "Some forecast_20_7_4" "Some forecast_10_none_0"]
  show ?thesis by simp
qed

subsection \<open>Icon selector\<close>

text \<open>
  Claim C3. For every precipitation amount, a number \<open>p\<close> with \<open>p \<ge> 0\<close> (an integer or a
  float, the positive infinity included), the selector picks exactly one of the four icons:
  the clear one if and only if \<open>p = 0\<close>, the cloudy one if and only if \<open>0 < p \<le> 2\<close>, the
  rain one if and only if \<open>2 < p \<le> 10\<close>, and the snow one if and only if \<open>p > 10\<close>; the
  boundary values 2 and 10 fall in the lower category.
\<close>

theorem get_weather_icon_thresholds:
  assumes "as_number v = Some n" and "fl_le (Finite 0) (value_of n)"
  shows "get_weather_icon v \<in> Inr ` {''sun.png'', ''cloudy.png'', ''rain.png'', ''snow.png''} \<and>
         (get_weather_icon v = Inr ''sun.png'' \<longleftrightarrow> value_of n = Finite 0) \<and>
         (get_weather_icon v = Inr ''cloudy.png'' \<longleftrightarrow>
            fl_less (Finite 0) (value_of n) \<and> fl_le (value_of n) (Finite 2)) \<and>
         (get_weather_icon v = Inr ''rain.png'' \<longleftrightarrow>
            fl_less (Finite 2) (value_of n) \<and> fl_le (value_of n) (Finite 10)) \<and>
         (get_weather_icon v = Inr ''snow.png'' \<longleftrightarrow> fl_less (Finite 10) (value_of n))"
proof (cases "value_of n")
  case (Finite q)
  with assms show ?thesis by (auto simp: get_weather_icon_def Let_def)
next
  case PosInf
  with assms show ?thesis by (simp add: get_weather_icon_def Let_def)
next
  case NegInf
  with assms show ?thesis by simp
next
  case NaN
  with assms show ?thesis by simp
qed

theorem get_weather_icon_thresholds_witness:
  "get_weather_icon (PInt 0) = Inr ''sun.png'' \<and>
   get_weather_icon (PFloat (Finite 1.5)) = Inr ''cloudy.png'' \<and>
   get_weather_icon (PInt 2) = Inr ''cloudy.png'' \<and>
   get_weather_icon (PInt 7) = Inr ''rain.png'' \<and>
   get_weather_icon (PFloat (Finite 10)) = Inr ''rain.png'' \<and>
   get_weather_icon (PInt 15) = Inr ''snow.png''"
  using get_weather_icon_thresholds [of "PInt 0" "IntNum 0"]
    get_weather_icon_thresholds [of "PFloat (Finite 1.5)" "FloatNum (Finite 1.5)"]
    get_weather_icon_thresholds [of "PInt 2" "IntNum 2"]
    get_weather_icon_thresholds [of "PInt 7" "IntNum 7"]
    get_weather_icon_thresholds [of "PFloat (Finite 10)" "FloatNum (Finite 10)"]
    get_weather_icon_thresholds [of "PInt 15" "IntNum 15"]
  by simp

subsection \<open>Country codes\<close>

text \<open>
  Claim C7. \<open>validate_phone_country_code\<close> succeeds (returns no error) on exactly the five
  codes of the table, \<open>1\<close>, \<open>91\<close>, \<open>44\<close>, \<open>86\<close> and \<open>7\<close>, and returns the unknown-code
  error, naming the code, on every other string.
\<close>

theorem validate_phone_country_code_table:
  "validate_phone_country_code code =
     (if code \<in> {''1'', ''91'', ''44'', ''86'', ''7''} then None else Some (UnknownCode code))"
  by (simp add: validate_phone_country_code_def VALID_PHONE_COUNTRY_CODES_def)

theorem validate_phone_country_code_table_witness:
  "validate_phone_country_code ''91'' = None \<and>
   validate_phone_country_code ''49'' = Some (UnknownCode ''49'') \<and>
   validate_phone_country_code ''India'' = Some (UnknownCode ''India'')"
  using validate_phone_country_code_table [of "''91''"]
    validate_phone_country_code_table [of "''49''"]
    validate_phone_country_code_table [of "''India''"]
  by simp

subsection \<open>Date validation\<close>

lemma next_year_not_leap: "is_leap y \<Longrightarrow> \<not> is_leap (Suc y)"
  unfolding is_leap_def by presburger

lemma replace_year_leap_day:
  assumes "month today = 2" and "day today = 29" and "is_leap (year today)"
  shows "replace_year today (year today + 1) = None"
  using assms next_year_not_leap [of "year today"]
  by (simp add: replace_year_def make_date_def days_in_month_def)

lemma replace_year_ordinary_day:
  assumes "valid_date today" and "\<not> (month today = 2 \<and> day today = 29)" and "year today < 9999"
  shows "replace_year today (year today + 1) = Some (today\<lparr>year := year today + 1\<rparr>)"
  using assms
  by (auto simp: valid_date_def replace_year_def make_date_def days_in_month_def
           split: if_splits)

text \<open>
  On a day other than 29 February (and before the year 9999) \<open>validate_date\<close> does what
  its messages say: the format error exactly for text that does not parse, then the past
  and the one-year limits.
\<close>

lemma validate_date_ordinary_day:
  assumes "valid_date today" and "\<not> (month today = 2 \<and> day today = 29)" and "year today < 9999"
  shows "validate_date today s =
           (case strptime s of
              None \<Rightarrow> Some InvalidFormat
            | Some d \<Rightarrow>
                if date_less d today then Some PastDate
                else if date_less (today\<lparr>year := year today + 1\<rparr>) d
                  then Some (TooFarFuture (today\<lparr>year := year today + 1\<rparr>))
                else None)"
  using replace_year_ordinary_day [OF assms]
  by (simp add: validate_date_def split: option.splits)

lemma strptime_samples:
  "strptime ''2024-03-01'' = Some \<lparr>year = 2024, month = 3, day = 1\<rparr>"
  "strptime ''2023-01-01'' = Some \<lparr>year = 2023, month = 1, day = 1\<rparr>"
  "strptime ''2026-01-01'' = Some \<lparr>year = 2026, month = 1, day = 1\<rparr>"
  by code_simp+

text \<open>
  Claim C4 at a failing input. With 29 February 2024 as the current day, the text
  \<open>2024-03-01\<close> parses and lies within the next year, the text \<open>2023-01-01\<close> parses and
  lies in the past, the text \<open>2026-01-01\<close> parses and lies more than a year ahead, and
  \<open>validate_date\<close> returns the format error for all three.
\<close>

theorem validate_date_leap_day_failure:
  "valid_date leap_day_2024 \<and>
   strptime ''2024-03-01'' = Some \<lparr>year = 2024, month = 3, day = 1\<rparr> \<and>
   validate_date leap_day_2024 ''2024-03-01'' = Some InvalidFormat \<and>
   strptime ''2023-01-01'' = Some \<lparr>year = 2023, month = 1, day = 1\<rparr> \<and>
   validate_date leap_day_2024 ''2023-01-01'' = Some InvalidFormat \<and>
   strptime ''2026-01-01'' = Some \<lparr>year = 2026, month = 1, day = 1\<rparr> \<and>
   validate_date leap_day_2024 ''2026-01-01'' = Some InvalidFormat"
proof -
  have v: "valid_date leap_day_2024"
    by (simp add: leap_day_2024_def valid_date_def make_date_def days_in_month_def is_leap_def)
  have r: "replace_year leap_day_2024 (year leap_day_2024 + 1) = None"
    by (simp add: leap_day_2024_def replace_year_def make_date_def days_in_month_def is_leap_def)
  show ?thesis
    using r by (simp add: v strptime_samples validate_date_def)
qed

text \<open>
  Claim C10. If the current day is 29 February of a leap year, \<open>validate_date\<close> returns
  the format error for every text, whether it parses or not: the next year has no
  29 February, so \<^verbatim>\<open>replace\<close> raises the \<^verbatim>\<open>ValueError\<close> that the handler of the
  format error catches.
\<close>

theorem validate_date_leap_day_today:
  assumes "month today = 2" and "day today = 29" and "is_leap (year today)"
  shows "validate_date today s = Some InvalidFormat"
  using replace_year_leap_day [OF assms]
  by (simp add: validate_date_def split: option.splits)

theorem validate_date_leap_day_today_witness:
  "month leap_day_2024 = 2 \<and> day leap_day_2024 = 29 \<and> is_leap (year leap_day_2024) \<and>
   valid_date leap_day_2024 \<and>
   strptime ''2024-06-15'' = Some \<lparr>year = 2024, month = 6, day = 15\<rparr> \<and>
   validate_date leap_day_2024 ''2024-06-15'' = Some InvalidFormat \<and>
   validate_date leap_day_2024 ''tomorrow'' = Some InvalidFormat"
proof -
  have m: "month leap_day_2024 = 2" and d: "day leap_day_2024 = 29"
    by (simp_all add: leap_day_2024_def)
  have l: "is_leap (year leap_day_2024)"
    by (simp add: leap_day_2024_def is_leap_def)
  have v: "valid_date leap_day_2024"
    by (simp add: leap_day_2024_def valid_date_def make_date_def days_in_month_def is_leap_def)
  have p: "strptime ''2024-06-15'' = Some \<lparr>year = 2024, month = 6, day = 15\<rparr>"
    by code_simp
  from validate_date_leap_day_today [OF m d l, of "''2024-06-15''"]
    validate_date_leap_day_today [OF m d l, of "''tomorrow''"] m d l v p
  show ?thesis by blast
qed

subsection \<open>Geocoder\<close>

lemma get_coordinates_no_results:
  assumes "map_of data ''results'' = None \<or> map_of data ''results'' = Some (PList [])"
  shows "get_coordinates (Body (PDict data)) = Inr (PNone, PNone)"
  using assms by (auto simp: get_coordinates_def and_then_def)

text \<open>
  Claim C6 at a failing input. A response without results, or with an empty list of
  results, gives the absent coordinates; a request that fails does not: the exception
  leaves \<open>get_coordinates\<close>, while both forecast clients turn the same failure into an
  absent forecast.
\<close>

theorem get_coordinates_request_failure:
  "get_coordinates (Body (PDict body_without_daily)) = Inr (PNone, PNone) \<and>
   get_coordinates (Body (PDict [(''results'', PList [])])) = Inr (PNone, PNone) \<and>
   get_coordinates RequestFailed = Inl RequestException"
  by (simp add: get_coordinates_def body_without_daily_def and_then_def)

subsection \<open>Forecast clients\<close>









text \<open>
  Claim C9. Whenever \<open>get_weather_openweathermap\<close> returns a forecast, the forecast has both
  temperature fields and they are equal: both come from the one \<^verbatim>\<open>temp\<close> reading.
\<close>

theorem openweathermap_equal_temperatures:
  assumes "get_weather_openweathermap resp = Inr (Some f)"
  shows "map_of f ''max_temp'' = map_of f ''min_temp'' \<and> map_of f ''max_temp'' \<noteq> None"
  using assms
  by (cases resp) (auto simp: get_weather_openweathermap_def and_then_eq_Inr)

theorem openweathermap_equal_temperatures_witness:
  "get_weather_openweathermap (Body (PDict body_current_temp_only)) =
     Inr (Some [(''max_temp'', PInt 21), (''min_temp'', PInt 21), (''precipitation'', PInt 0)]) \<and>
   map_of [(''max_temp'', PInt 21), (''min_temp'', PInt 21), (''precipitation'', PInt 0)]
       ''max_temp'' =
     map_of [(''max_temp'', PInt 21), (''min_temp'', PInt 21), (''precipitation'', PInt 0)]
       ''min_temp''"
proof -
  have h: "get_weather_openweathermap (Body (PDict body_current_temp_only)) =
     Inr (Some [(''max_temp'', PInt 21), (''min_temp'', PInt 21), (''precipitation'', PInt 0)])"
    by (simp add: get_weather_openweathermap_def and_then_def dict_get_def
          body_current_temp_only_def)
  from openweathermap_equal_temperatures [OF h] h show ?thesis
    by blast
qed

end
